theory Spec2Isabelle
  imports Complex_Main
begin

section \<open>The rate limiter: pkg/rpc/interceptor.go, \<open>RateLimiterInterceptor\<close>\<close>

subsection \<open>The token bucket\<close>

text \<open>
  Modelled from the spec: the token bucket \<open>ratelimit.Bucket\<close>, its constructor
  \<open>ratelimit.NewBucketWithRate\<close> and its method \<open>TakeAvailable\<close> belong to the library
  \<open>github.com/juju/ratelimit\<close>, whose code is not part of \<open>pkg/rpc/interceptor.go\<close>.
  The spec describes the bucket as holding a current number of tokens out of a fixed
  burst size, refilling at a fixed rate in tokens per second, never negative, and
  constructed only for a rate above zero and a burst of at least one.

  The rate (a \<open>float64\<close> in the source) and durations are idealised as rationals; the
  burst and the token count (\<open>int64\<close> in the source) are integers, and the token count
  stays between zero and the burst, so no wrap-around arises.
\<close>

record Bucket =
  rate :: rat
  capacity :: int
  availableTokens :: int

text \<open>
  Modelled from the spec: construction starts with a full bucket and rejects a rate
  that is not above zero or a burst below one (\<open>None\<close> stands for the rejection).
\<close>

definition NewBucketWithRate :: "rat \<Rightarrow> int \<Rightarrow> Bucket option" where
  "NewBucketWithRate r c =
     (if r \<le> 0 then None
      else if c \<le> 0 then None
      else Some \<lparr>rate = r, capacity = c, availableTokens = c\<rparr>)"

text \<open>
  Modelled from the spec: \<open>TakeAvailable count\<close> takes up to \<open>count\<close> tokens that are
  immediately available, never waits, and returns the number of tokens it removed
  (zero when none is available).
\<close>

definition TakeAvailable :: "int \<Rightarrow> Bucket \<Rightarrow> int \<times> Bucket" where
  "TakeAvailable count b =
     (if count \<le> 0 then (0, b)
      else if availableTokens b \<le> 0 then (0, b)
      else (let n = min count (availableTokens b)
            in (n, b\<lparr>availableTokens := availableTokens b - n\<rparr>)))"

text \<open>
  Modelled from the spec: the passing of \<open>secs\<close> seconds adds the whole tokens the rate
  produces in that time, up to the burst size. The source reads the wall clock inside
  \<open>TakeAvailable\<close>; here time passes only where \<open>elapse\<close> is applied, so consecutive
  calls with no \<open>elapse\<close> between them are calls with no time elapsing.
\<close>

definition elapse :: "rat \<Rightarrow> Bucket \<Rightarrow> Bucket" where
  "elapse secs b =
     b\<lparr>availableTokens := min (capacity b) (availableTokens b + \<lfloor>rate b * secs\<rfloor>)\<rparr>"

subsection \<open>The interceptor\<close>

record RateLimiterInterceptor =
  tokenBucket :: Bucket

text \<open>
  \<open>NewRateLimiterInterceptor(qps, burst)\<close> wraps the bucket that
  \<open>ratelimit.NewBucketWithRate(qps, burst)\<close> returns; it has no check of its own, and a
  rejection by the bucket's constructor is a rejection of the call.
\<close>

definition NewRateLimiterInterceptor :: "rat \<Rightarrow> int \<Rightarrow> RateLimiterInterceptor option" where
  "NewRateLimiterInterceptor qps burst =
     (case NewBucketWithRate qps burst of
        None \<Rightarrow> None
      | Some b \<Rightarrow> Some \<lparr>tokenBucket = b\<rparr>)"

text \<open>
  \<open>Limit\<close> returns \<open>true\<close> when \<open>TakeAvailable(1)\<close> returned zero and \<open>false\<close> otherwise;
  the bucket is mutated in place, so the model returns the interceptor after the call.
\<close>

definition Limit :: "RateLimiterInterceptor \<Rightarrow> bool \<times> RateLimiterInterceptor" where
  "Limit r =
     (let (n, b) = TakeAvailable 1 (tokenBucket r)
      in (if n = 0 then True else False, r\<lparr>tokenBucket := b\<rparr>))"

text \<open>\<open>LimitN n\<close> is \<open>n\<close> consecutive calls of \<open>Limit\<close>, with their results in order.\<close>

fun LimitN :: "nat \<Rightarrow> RateLimiterInterceptor \<Rightarrow> bool list \<times> RateLimiterInterceptor" where
  "LimitN 0 r = ([], r)"
| "LimitN (Suc n) r =
     (let (x, r1) = Limit r; (xs, r2) = LimitN n r1 in (x # xs, r2))"

text \<open>Time passing for the interceptor is time passing for its bucket.\<close>

definition wait :: "rat \<Rightarrow> RateLimiterInterceptor \<Rightarrow> RateLimiterInterceptor" where
  "wait secs r = r\<lparr>tokenBucket := elapse secs (tokenBucket r)\<rparr>"

section \<open>Errors and gRPC statuses\<close>

text \<open>The status codes of \<open>google.golang.org/grpc/codes\<close>, in their numeric order.\<close>

datatype Code =
    OK | Canceled | Unknown | InvalidArgument | DeadlineExceeded | NotFound
  | AlreadyExists | PermissionDenied | ResourceExhausted | FailedPrecondition
  | Aborted | OutOfRange | Unimplemented | Internal | Unavailable | DataLoss
  | Unauthenticated

text \<open>
  A non-nil value of Go's \<open>error\<close> interface: an error that carries a gRPC status (a code
  and a message), a domain error of \<open>internal/dferrors\<close> (a code and a message), or any
  other error. The interface value itself is an \<open>error option\<close>, \<open>None\<close> being \<open>nil\<close>.
\<close>

datatype error =
    StatusError Code string
  | DfError int string
  | PlainError string

text \<open>
  Modelled from the spec: \<open>status.FromError\<close> and \<open>Status.Code\<close> belong to
  \<open>google.golang.org/grpc/status\<close>, whose code is not part of
  \<open>pkg/rpc/interceptor.go\<close>. The interceptors read only the code of the status, so a
  status is modelled by its code and a nil status pointer by \<open>None\<close>. A nil error gives
  a nil status and \<open>ok\<close>; an error carrying a status gives that status and \<open>ok\<close>; any
  other error gives a status of code \<open>Unknown\<close> and not \<open>ok\<close>. The code of a nil status
  is \<open>OK\<close>.
\<close>

fun FromError :: "error option \<Rightarrow> Code option \<times> bool" where
  "FromError None = (None, True)"
| "FromError (Some (StatusError c m)) = (Some c, True)"
| "FromError (Some e) = (Some Unknown, False)"

fun Status_Code :: "Code option \<Rightarrow> Code" where
  "Status_Code None = OK"
| "Status_Code (Some c) = c"

section \<open>The refresher interceptors\<close>

text \<open>
  The next stage of a call and the refresher act on the world outside the interceptor
  (the connection, the reply the invoker fills in, the dynamic configuration): a state
  \<open>'s\<close>, passed in and returned. \<open>Refresh() error\<close> is a state transformer returning an
  error or nil.
\<close>

type_synonym 's Refresher = "'s \<Rightarrow> error option \<times> 's"

type_synonym ('ctx, 'req, 'rep, 'cc, 'opt, 's) UnaryInvoker =
  "'ctx \<Rightarrow> string \<Rightarrow> 'req \<Rightarrow> 'rep \<Rightarrow> 'cc \<Rightarrow> 'opt list \<Rightarrow> 's \<Rightarrow> error option \<times> 's"

type_synonym ('ctx, 'desc, 'cc, 'opt, 'cs, 's) Streamer =
  "'ctx \<Rightarrow> 'desc \<Rightarrow> 'cc \<Rightarrow> string \<Rightarrow> 'opt list \<Rightarrow> 's \<Rightarrow> ('cs option \<times> error option) \<times> 's"

type_synonym ('ctx, 'req, 'resp, 's) UnaryHandler =
  "'ctx \<Rightarrow> 'req \<Rightarrow> 's \<Rightarrow> ('resp \<times> error option) \<times> 's"

type_synonym ('srv, 'ss, 's) StreamHandler =
  "'srv \<Rightarrow> 'ss \<Rightarrow> 's \<Rightarrow> error option \<times> 's"

definition RefresherUnaryClientInterceptor ::
  "'s Refresher \<Rightarrow> 'ctx \<Rightarrow> string \<Rightarrow> 'req \<Rightarrow> 'rep \<Rightarrow> 'cc \<Rightarrow>
   ('ctx, 'req, 'rep, 'cc, 'opt, 's) UnaryInvoker \<Rightarrow> 'opt list \<Rightarrow> 's \<Rightarrow> error option \<times> 's" where
  "RefresherUnaryClientInterceptor r ctx method req reply cc invoker opts s0 =
     (let (err, s1) = invoker ctx method req reply cc opts s0;
          (st, ok) = FromError err;
          s2 = (if ok
                then (if Status_Code st = ResourceExhausted \<or> Status_Code st = Unavailable
                      then snd (r s1)
                      else s1)
                else s1)
      in (err, s2))"

definition RefresherStreamClientInterceptor ::
  "'s Refresher \<Rightarrow> 'ctx \<Rightarrow> 'desc \<Rightarrow> 'cc \<Rightarrow> string \<Rightarrow>
   ('ctx, 'desc, 'cc, 'opt, 'cs, 's) Streamer \<Rightarrow> 'opt list \<Rightarrow> 's \<Rightarrow>
   ('cs option \<times> error option) \<times> 's" where
  "RefresherStreamClientInterceptor r ctx desc cc method streamer opts s0 =
     (let ((clientStream, err), s1) = streamer ctx desc cc method opts s0;
          (st, ok) = FromError err;
          s2 = (if ok
                then (if Status_Code st = ResourceExhausted \<or> Status_Code st = Unavailable
                      then snd (r s1)
                      else s1)
                else s1)
      in ((clientStream, err), s2))"

text \<open>
  To count the calls of \<open>Refresh\<close>, the world is paired with a counter: \<open>counted r\<close> is
  the refresher \<open>r\<close> that also increments the counter, and \<open>onWorld f\<close> is a next stage
  \<open>f\<close> that leaves the counter alone.
\<close>

definition counted :: "'w Refresher \<Rightarrow> (nat \<times> 'w) Refresher" where
  "counted r = (\<lambda>(n, w). let (e, w') = r w in (e, (Suc n, w')))"

definition onWorld :: "('w \<Rightarrow> 'a \<times> 'w) \<Rightarrow> nat \<times> 'w \<Rightarrow> 'a \<times> (nat \<times> 'w)" where
  "onWorld f = (\<lambda>(n, w). let (a, w') = f w in (a, (n, w')))"

section \<open>The error-converting interceptors\<close>

text \<open>
  \<open>dferrors.ConvertDfErrorToGRPCError\<close> and \<open>dferrors.ConvertGRPCErrorToDfError\<close> are
  defined in \<open>internal/dferrors\<close>, outside \<open>pkg/rpc/interceptor.go\<close>; they are parameters
  of the model, of Go's type \<open>func(error) error\<close>, applied only to a non-nil error.
\<close>

type_synonym Convert = "error \<Rightarrow> error option"

definition ConvertErrorUnaryServerInterceptor ::
  "Convert \<Rightarrow> 'ctx \<Rightarrow> 'req \<Rightarrow> 'info \<Rightarrow> ('ctx, 'req, 'resp, 's) UnaryHandler \<Rightarrow> 's \<Rightarrow>
   ('resp \<times> error option) \<times> 's" where
  "ConvertErrorUnaryServerInterceptor ConvertDfErrorToGRPCError ctx req info handler s0 =
     (let ((h, err), s1) = handler ctx req s0
      in (case err of
            Some e \<Rightarrow> ((h, ConvertDfErrorToGRPCError e), s1)
          | None \<Rightarrow> ((h, None), s1)))"

definition ConvertErrorStreamServerInterceptor ::
  "Convert \<Rightarrow> 'srv \<Rightarrow> 'ss \<Rightarrow> 'info \<Rightarrow> ('srv, 'ss, 's) StreamHandler \<Rightarrow> 's \<Rightarrow>
   error option \<times> 's" where
  "ConvertErrorStreamServerInterceptor ConvertDfErrorToGRPCError srv ss info handler s0 =
     (let (err, s1) = handler srv ss s0
      in (case err of
            Some e \<Rightarrow> (ConvertDfErrorToGRPCError e, s1)
          | None \<Rightarrow> (None, s1)))"

definition ConvertErrorUnaryClientInterceptor ::
  "Convert \<Rightarrow> 'ctx \<Rightarrow> string \<Rightarrow> 'req \<Rightarrow> 'rep \<Rightarrow> 'cc \<Rightarrow>
   ('ctx, 'req, 'rep, 'cc, 'opt, 's) UnaryInvoker \<Rightarrow> 'opt list \<Rightarrow> 's \<Rightarrow> error option \<times> 's" where
  "ConvertErrorUnaryClientInterceptor ConvertGRPCErrorToDfError ctx method req reply cc invoker opts s0 =
     (let (err, s1) = invoker ctx method req reply cc opts s0
      in (case err of
            Some e \<Rightarrow> (ConvertGRPCErrorToDfError e, s1)
          | None \<Rightarrow> (None, s1)))"

definition ConvertErrorStreamClientInterceptor ::
  "Convert \<Rightarrow> 'ctx \<Rightarrow> 'desc \<Rightarrow> 'cc \<Rightarrow> string \<Rightarrow>
   ('ctx, 'desc, 'cc, 'opt, 'cs, 's) Streamer \<Rightarrow> 'opt list \<Rightarrow> 's \<Rightarrow>
   ('cs option \<times> error option) \<times> 's" where
  "ConvertErrorStreamClientInterceptor ConvertGRPCErrorToDfError ctx desc cc method streamer opts s0 =
     (let ((s, err), s1) = streamer ctx desc cc method opts s0
      in (case err of
            Some e \<Rightarrow> ((None, ConvertGRPCErrorToDfError e), s1)
          | None \<Rightarrow> ((s, None), s1)))"

section \<open>The tracing interceptors, created once\<close>

text \<open>
  The package-level variables, with the instrumentation the properties need: an
  interceptor value is identified by the number of the construction that made it, and
  the process counts the constructions. \<open>interceptorsInitialized\<close> is the \<open>sync.Once\<close>,
  modelled by its done flag.
\<close>

record Process =
  otelUnaryInterceptor :: "nat option"
  otelStreamInterceptor :: "nat option"
  interceptorsInitialized :: bool
  unaryConstructions :: nat
  streamConstructions :: nat

text \<open>At process start the variables are nil, the once is unused, nothing is constructed.\<close>

definition processStart :: Process where
  "processStart =
     \<lparr>otelUnaryInterceptor = None, otelStreamInterceptor = None,
      interceptorsInitialized = False, unaryConstructions = 0, streamConstructions = 0\<rparr>"

text \<open>
  Modelled from the spec: \<open>otelgrpc.UnaryClientInterceptor\<close> and
  \<open>otelgrpc.StreamClientInterceptor\<close> belong to the OpenTelemetry library; each call
  constructs a new interceptor instance.
\<close>

definition otelgrpc_UnaryClientInterceptor :: "Process \<Rightarrow> nat \<times> Process" where
  "otelgrpc_UnaryClientInterceptor p =
     (unaryConstructions p, p\<lparr>unaryConstructions := Suc (unaryConstructions p)\<rparr>)"

definition otelgrpc_StreamClientInterceptor :: "Process \<Rightarrow> nat \<times> Process" where
  "otelgrpc_StreamClientInterceptor p =
     (streamConstructions p, p\<lparr>streamConstructions := Suc (streamConstructions p)\<rparr>)"

text \<open>\<open>interceptorsInitialized.Do(f)\<close>: \<open>f\<close> runs only if no earlier \<open>Do\<close> has run.\<close>

definition interceptorsInitialized_Do :: "(Process \<Rightarrow> Process) \<Rightarrow> Process \<Rightarrow> Process" where
  "interceptorsInitialized_Do f p =
     (if interceptorsInitialized p then p else (f p)\<lparr>interceptorsInitialized := True\<rparr>)"

definition ensureOTELInterceptorInitialized :: "Process \<Rightarrow> Process" where
  "ensureOTELInterceptorInitialized =
     interceptorsInitialized_Do
       (\<lambda>p. let (u, p1) = otelgrpc_UnaryClientInterceptor p;
                 p2 = p1\<lparr>otelUnaryInterceptor := Some u\<rparr>;
                 (s, p3) = otelgrpc_StreamClientInterceptor p2
             in p3\<lparr>otelStreamInterceptor := Some s\<rparr>)"

definition OTELUnaryClientInterceptor :: "Process \<Rightarrow> nat option \<times> Process" where
  "OTELUnaryClientInterceptor p =
     (let p' = ensureOTELInterceptorInitialized p in (otelUnaryInterceptor p', p'))"

definition OTELStreamClientInterceptor :: "Process \<Rightarrow> nat option \<times> Process" where
  "OTELStreamClientInterceptor p =
     (let p' = ensureOTELInterceptorInitialized p in (otelStreamInterceptor p', p'))"

text \<open>A sequence of calls of the two getters, with what each call returned.\<close>

datatype getter = GetUnary | GetStream

datatype returned = UnaryInterceptor "nat option" | StreamInterceptor "nat option"

fun callGetter :: "getter \<Rightarrow> Process \<Rightarrow> returned \<times> Process" where
  "callGetter GetUnary p = (let (i, p') = OTELUnaryClientInterceptor p in (UnaryInterceptor i, p'))"
| "callGetter GetStream p = (let (i, p') = OTELStreamClientInterceptor p in (StreamInterceptor i, p'))"

fun callGetters :: "getter list \<Rightarrow> Process \<Rightarrow> returned list \<times> Process" where
  "callGetters [] p = ([], p)"
| "callGetters (g # gs) p =
     (let (x, p1) = callGetter g p; (xs, p2) = callGetters gs p1 in (x # xs, p2))"

text \<open>The instance a getter hands out once construction number 0 has been stored.\<close>

fun firstInstance :: "getter \<Rightarrow> returned" where
  "firstInstance GetUnary = UnaryInterceptor (Some 0)"
| "firstInstance GetStream = StreamInterceptor (Some 0)"

text \<open>The process once the first call of a getter has run the initialisation.\<close>

definition processReady :: Process where
  "processReady =
     \<lparr>otelUnaryInterceptor = Some 0, otelStreamInterceptor = Some 0,
      interceptorsInitialized = True, unaryConstructions = 1, streamConstructions = 1\<rparr>"

section \<open>Properties of the rate limiter\<close>

lemma Limit_available:
  "0 < availableTokens (tokenBucket r) \<Longrightarrow>
   Limit r = (False, r\<lparr>tokenBucket := (tokenBucket r)\<lparr>availableTokens := availableTokens (tokenBucket r) - 1\<rparr>\<rparr>)"
  by (simp add: Limit_def TakeAvailable_def min_def)

lemma Limit_exhausted:
  "availableTokens (tokenBucket r) \<le> 0 \<Longrightarrow> Limit r = (True, r)"
  by (simp add: Limit_def TakeAvailable_def)

lemma LimitN_available:
  "int n \<le> availableTokens (tokenBucket r) \<Longrightarrow>
   LimitN n r =
     (replicate n False,
      r\<lparr>tokenBucket := (tokenBucket r)\<lparr>availableTokens := availableTokens (tokenBucket r) - int n\<rparr>\<rparr>)"
proof (induction n arbitrary: r)
  case 0
  then show ?case by simp
next
  case (Suc n)
  let ?r1 = "r\<lparr>tokenBucket := (tokenBucket r)\<lparr>availableTokens := availableTokens (tokenBucket r) - 1\<rparr>\<rparr>"
  from Suc.prems have pos: "0 < availableTokens (tokenBucket r)" by simp
  from Suc.prems have "int n \<le> availableTokens (tokenBucket ?r1)" by simp
  from Suc.IH [OF this] pos show ?case
    by (simp add: Limit_available)
qed

text \<open>
  C1 (as the code has it). \<open>Limit\<close> tries to take exactly one token. When a token is
  available it takes exactly that one and returns \<open>false\<close> (the request is not limited);
  when no token is available it leaves the bucket as it is and returns \<open>true\<close> (the
  request is limited). The boolean is the opposite of the spec's \<open>TryAdmit\<close>.
\<close>

theorem Limit_true_iff_no_token:
  "fst (Limit r) = (availableTokens (tokenBucket r) \<le> 0) \<and>
   availableTokens (tokenBucket (snd (Limit r))) =
     (if 0 < availableTokens (tokenBucket r)
      then availableTokens (tokenBucket r) - 1
      else availableTokens (tokenBucket r)) \<and>
   capacity (tokenBucket (snd (Limit r))) = capacity (tokenBucket r) \<and>
   rate (tokenBucket (snd (Limit r))) = rate (tokenBucket r)"
  by (cases "0 < availableTokens (tokenBucket r)")
     (simp_all add: Limit_available Limit_exhausted)

text \<open>
  C1 as stated fails: on a bucket holding one token, \<open>Limit\<close> takes the token and
  returns \<open>false\<close>, not \<open>true\<close>; on an empty bucket it returns \<open>true\<close>, not \<open>false\<close>.
\<close>

theorem Limit_admit_polarity_counterexample:
  "fst (Limit \<lparr>tokenBucket = \<lparr>rate = 1, capacity = 1, availableTokens = 1\<rparr>\<rparr>) = False \<and>
   availableTokens (tokenBucket (snd (Limit
      \<lparr>tokenBucket = \<lparr>rate = 1, capacity = 1, availableTokens = 1\<rparr>\<rparr>))) = 0 \<and>
   fst (Limit \<lparr>tokenBucket = \<lparr>rate = 1, capacity = 1, availableTokens = 0\<rparr>\<rparr>) = True"
  by (simp add: Limit_def TakeAvailable_def)

text \<open>
  C2. \<open>NewRateLimiterInterceptor\<close> returns a limiter exactly for a rate above zero and a
  burst of at least one, and rejects every other pair of arguments; a rate of zero is
  rejected whatever the burst. The limiter it returns holds a full bucket of that rate
  and burst.
\<close>

theorem NewRateLimiterInterceptor_validates:
  "(NewRateLimiterInterceptor qps burst = None) = (qps \<le> 0 \<or> burst < 1) \<and>
   NewRateLimiterInterceptor 0 burst = None \<and>
   (NewRateLimiterInterceptor qps burst =
      Some \<lparr>tokenBucket = \<lparr>rate = qps, capacity = burst, availableTokens = burst\<rparr>\<rparr>)
     = (0 < qps \<and> 1 \<le> burst)"
  by (auto simp: NewRateLimiterInterceptor_def NewBucketWithRate_def)

text \<open>
  C8. For a limiter constructed with burst \<open>B\<close> and rate \<open>R\<close>: with no time elapsing, the
  first \<open>B\<close> calls of \<open>Limit\<close> all admit (return \<open>false\<close>) and the next one rejects
  (returns \<open>true\<close>); once \<open>1/R\<close> seconds have passed, one more call admits and the call
  after it rejects again.
\<close>

theorem burst_then_one_per_interval:
  assumes "NewRateLimiterInterceptor R B = Some r0"
  shows "fst (LimitN (nat B) r0) = replicate (nat B) False \<and>
         fst (Limit (snd (LimitN (nat B) r0))) = True \<and>
         fst (Limit (wait (1 / R) (snd (Limit (snd (LimitN (nat B) r0)))))) = False \<and>
         fst (Limit (snd (Limit (wait (1 / R) (snd (Limit (snd (LimitN (nat B) r0)))))))) = True"
proof -
  from assms have R: "0 < R" and B: "1 \<le> B"
    and r0: "r0 = \<lparr>tokenBucket = \<lparr>rate = R, capacity = B, availableTokens = B\<rparr>\<rparr>"
    by (auto simp: NewRateLimiterInterceptor_def NewBucketWithRate_def split: if_splits)
  let ?e = "\<lparr>tokenBucket = \<lparr>rate = R, capacity = B, availableTokens = 0\<rparr>\<rparr>"
  let ?f = "\<lparr>tokenBucket = \<lparr>rate = R, capacity = B, availableTokens = 1\<rparr>\<rparr>"
  from B have "int (nat B) \<le> availableTokens (tokenBucket r0)" by (simp add: r0)
  from LimitN_available [OF this] B have burst: "LimitN (nat B) r0 = (replicate (nat B) False, ?e)"
    by (simp add: r0)
  have rej: "Limit ?e = (True, ?e)" by (simp add: Limit_exhausted)
  from R have "R * (1 / R) = 1" by simp
  with B have refill: "wait (1 / R) ?e = ?f" by (simp add: wait_def elapse_def)
  have adm: "Limit ?f = (False, ?e)" by (simp add: Limit_available)
  show ?thesis by (simp add: burst rej refill adm)
qed

theorem burst_then_one_per_interval_witness:
  "NewRateLimiterInterceptor 2 3 =
     Some \<lparr>tokenBucket = \<lparr>rate = 2, capacity = 3, availableTokens = 3\<rparr>\<rparr> \<and>
   fst (LimitN (nat 3) \<lparr>tokenBucket = \<lparr>rate = 2, capacity = 3, availableTokens = 3\<rparr>\<rparr>)
     = [False, False, False] \<and>
   fst (Limit (snd (LimitN (nat 3)
     \<lparr>tokenBucket = \<lparr>rate = 2, capacity = 3, availableTokens = 3\<rparr>\<rparr>))) = True \<and>
   fst (Limit (wait (1 / 2) (snd (Limit (snd (LimitN (nat 3)
     \<lparr>tokenBucket = \<lparr>rate = 2, capacity = 3, availableTokens = 3\<rparr>\<rparr>)))))) = False"
proof -
  have c: "NewRateLimiterInterceptor 2 3 =
     Some \<lparr>tokenBucket = \<lparr>rate = 2, capacity = 3, availableTokens = 3\<rparr>\<rparr>"
    by (simp add: NewRateLimiterInterceptor_def NewBucketWithRate_def)
  have n: "replicate (nat 3) False = [False, False, False]"
    by (simp add: numeral_3_eq_3)
  from burst_then_one_per_interval [OF c] c n show ?thesis by simp
qed

section \<open>Properties of the refresher interceptors\<close>

lemma refreshTrigger_cases:
  "(case FromError err of (st, ok) \<Rightarrow>
      ok \<and> (Status_Code st = ResourceExhausted \<or> Status_Code st = Unavailable)) =
   ((\<exists>m. err = Some (StatusError ResourceExhausted m)) \<or>
    (\<exists>m. err = Some (StatusError Unavailable m)))"
proof (cases err)
  case None
  then show ?thesis by simp
next
  case (Some e)
  then show ?thesis by (cases e) auto
qed

lemma RefresherUnary_eq:
  "RefresherUnaryClientInterceptor r ctx method req reply cc invoker opts s0 =
     (fst (invoker ctx method req reply cc opts s0),
      if (\<exists>m. fst (invoker ctx method req reply cc opts s0) = Some (StatusError ResourceExhausted m)) \<or>
         (\<exists>m. fst (invoker ctx method req reply cc opts s0) = Some (StatusError Unavailable m))
      then snd (r (snd (invoker ctx method req reply cc opts s0)))
      else snd (invoker ctx method req reply cc opts s0))"
  using refreshTrigger_cases [of "fst (invoker ctx method req reply cc opts s0)"]
  by (auto simp: RefresherUnaryClientInterceptor_def Let_def split: prod.splits)

lemma RefresherStream_eq:
  "RefresherStreamClientInterceptor r ctx desc cc method streamer opts s0 =
     (fst (streamer ctx desc cc method opts s0),
      if (\<exists>m. snd (fst (streamer ctx desc cc method opts s0)) = Some (StatusError ResourceExhausted m)) \<or>
         (\<exists>m. snd (fst (streamer ctx desc cc method opts s0)) = Some (StatusError Unavailable m))
      then snd (r (snd (streamer ctx desc cc method opts s0)))
      else snd (streamer ctx desc cc method opts s0))"
  using refreshTrigger_cases [of "snd (fst (streamer ctx desc cc method opts s0))"]
  by (auto simp: RefresherStreamClientInterceptor_def Let_def split: prod.splits)

lemma counted_count: "fst (snd (counted r (n, w))) = Suc n"
  by (simp add: counted_def split: prod.splits)

lemma onWorld_fst: "fst (onWorld f (n, w)) = fst (f w)"
  by (simp add: onWorld_def split: prod.splits)

lemma onWorld_snd: "snd (onWorld f (n, w)) = (n, snd (f w))"
  by (simp add: onWorld_def split: prod.splits)

text \<open>
  C4. Through either refresher interceptor, with \<open>n\<close> calls of \<open>Refresh\<close> made before the
  call: the interceptor returns what the next stage returned, unchanged, and the number
  of calls of \<open>Refresh\<close> afterwards is \<open>n + 1\<close> when the returned error carries the status
  \<open>ResourceExhausted\<close> or \<open>Unavailable\<close>, and \<open>n\<close> in every other case (another status
  code, an error without a status, no error).
\<close>

theorem Refresher_refresh_exactly_on_trigger:
  "fst (RefresherUnaryClientInterceptor (counted r) ctx method req reply cc
          (\<lambda>c m q p k os. onWorld (invoker c m q p k os)) opts (n, w))
     = fst (invoker ctx method req reply cc opts w) \<and>
   fst (snd (RefresherUnaryClientInterceptor (counted r) ctx method req reply cc
          (\<lambda>c m q p k os. onWorld (invoker c m q p k os)) opts (n, w)))
     = n + (if (\<exists>m. fst (invoker ctx method req reply cc opts w) = Some (StatusError ResourceExhausted m)) \<or>
               (\<exists>m. fst (invoker ctx method req reply cc opts w) = Some (StatusError Unavailable m))
            then 1 else 0) \<and>
   fst (RefresherStreamClientInterceptor (counted r) ctx desc cc method
          (\<lambda>c d k m os. onWorld (streamer c d k m os)) opts (n, w))
     = fst (streamer ctx desc cc method opts w) \<and>
   fst (snd (RefresherStreamClientInterceptor (counted r) ctx desc cc method
          (\<lambda>c d k m os. onWorld (streamer c d k m os)) opts (n, w)))
     = n + (if (\<exists>m. snd (fst (streamer ctx desc cc method opts w)) = Some (StatusError ResourceExhausted m)) \<or>
               (\<exists>m. snd (fst (streamer ctx desc cc method opts w)) = Some (StatusError Unavailable m))
            then 1 else 0)"
  by (simp add: RefresherUnary_eq RefresherStream_eq onWorld_fst onWorld_snd counted_count)

text \<open>
  C5. What a refresher interceptor returns does not depend on the refresher: for any
  two refreshers, whatever their \<open>Refresh\<close> returns or does, the same next stage from the
  same state gives the same returned value, which is the next stage's own.
\<close>

theorem Refresher_result_independent_of_refresh:
  "fst (RefresherUnaryClientInterceptor r1 ctx method req reply cc invoker opts s)
     = fst (RefresherUnaryClientInterceptor r2 ctx method req reply cc invoker opts s) \<and>
   fst (RefresherUnaryClientInterceptor r1 ctx method req reply cc invoker opts s)
     = fst (invoker ctx method req reply cc opts s) \<and>
   fst (RefresherStreamClientInterceptor r1 ctx desc cc method streamer opts s)
     = fst (RefresherStreamClientInterceptor r2 ctx desc cc method streamer opts s) \<and>
   fst (RefresherStreamClientInterceptor r1 ctx desc cc method streamer opts s)
     = fst (streamer ctx desc cc method opts s)"
  by (simp add: RefresherUnary_eq RefresherStream_eq)

section \<open>Properties of the error-converting interceptors\<close>

lemma ConvertUnaryServer_eq:
  "ConvertErrorUnaryServerInterceptor conv ctx req info handler s0 =
     ((fst (fst (handler ctx req s0)),
       case snd (fst (handler ctx req s0)) of None \<Rightarrow> None | Some e \<Rightarrow> conv e),
      snd (handler ctx req s0))"
  by (simp add: ConvertErrorUnaryServerInterceptor_def split: prod.splits option.splits)

lemma ConvertStreamServer_eq:
  "ConvertErrorStreamServerInterceptor conv srv ss info handler s0 =
     (case fst (handler srv ss s0) of None \<Rightarrow> None | Some e \<Rightarrow> conv e,
      snd (handler srv ss s0))"
  by (simp add: ConvertErrorStreamServerInterceptor_def split: prod.splits option.splits)

lemma ConvertUnaryClient_eq:
  "ConvertErrorUnaryClientInterceptor conv ctx method req reply cc invoker opts s0 =
     (case fst (invoker ctx method req reply cc opts s0) of None \<Rightarrow> None | Some e \<Rightarrow> conv e,
      snd (invoker ctx method req reply cc opts s0))"
  by (simp add: ConvertErrorUnaryClientInterceptor_def split: prod.splits option.splits)

lemma ConvertStreamClient_eq:
  "ConvertErrorStreamClientInterceptor conv ctx desc cc method streamer opts s0 =
     (case snd (fst (streamer ctx desc cc method opts s0)) of
        None \<Rightarrow> (fst (fst (streamer ctx desc cc method opts s0)), None)
      | Some e \<Rightarrow> (None, conv e),
      snd (streamer ctx desc cc method opts s0))"
  by (simp add: ConvertErrorStreamClientInterceptor_def split: prod.splits option.splits)

text \<open>
  C6. With conversion functions that return an error for every error (the totality the
  spec requires of them): each of the four interceptors returns success exactly when
  its next stage succeeded, then with the next stage's payload and state as they are;
  and when the next stage failed with \<open>e\<close> it returns the conversion of \<open>e\<close>, a failure.
\<close>

theorem ConvertError_keeps_outcome:
  assumes toGRPC: "\<And>e. toGRPC e \<noteq> None" and toDf: "\<And>e. toDf e \<noteq> None"
  shows
    "ConvertErrorUnaryServerInterceptor toGRPC ctx req info handler s =
       (case handler ctx req s of
          ((h, None), s1) \<Rightarrow> ((h, None), s1)
        | ((h, Some e), s1) \<Rightarrow> ((h, toGRPC e), s1)) \<and>
     (snd (fst (ConvertErrorUnaryServerInterceptor toGRPC ctx req info handler s)) = None)
       = (snd (fst (handler ctx req s)) = None) \<and>
     ConvertErrorStreamServerInterceptor toGRPC srv ss sinfo shandler s =
       (case shandler srv ss s of
          (None, s1) \<Rightarrow> (None, s1)
        | (Some e, s1) \<Rightarrow> (toGRPC e, s1)) \<and>
     (fst (ConvertErrorStreamServerInterceptor toGRPC srv ss sinfo shandler s) = None)
       = (fst (shandler srv ss s) = None) \<and>
     ConvertErrorUnaryClientInterceptor toDf cctx method creq reply cc invoker opts s =
       (case invoker cctx method creq reply cc opts s of
          (None, s1) \<Rightarrow> (None, s1)
        | (Some e, s1) \<Rightarrow> (toDf e, s1)) \<and>
     (fst (ConvertErrorUnaryClientInterceptor toDf cctx method creq reply cc invoker opts s) = None)
       = (fst (invoker cctx method creq reply cc opts s) = None) \<and>
     ConvertErrorStreamClientInterceptor toDf cctx desc cc method streamer opts s =
       (case streamer cctx desc cc method opts s of
          ((cs, None), s1) \<Rightarrow> ((cs, None), s1)
        | ((cs, Some e), s1) \<Rightarrow> ((None, toDf e), s1)) \<and>
     (snd (fst (ConvertErrorStreamClientInterceptor toDf cctx desc cc method streamer opts s)) = None)
       = (snd (fst (streamer cctx desc cc method opts s)) = None)"
proof -
  have a: "ConvertErrorUnaryServerInterceptor toGRPC ctx req info handler s =
       (case handler ctx req s of
          ((h, None), s1) \<Rightarrow> ((h, None), s1)
        | ((h, Some e), s1) \<Rightarrow> ((h, toGRPC e), s1))"
    by (simp add: ConvertUnaryServer_eq split: prod.splits option.splits)
  have b: "(snd (fst (ConvertErrorUnaryServerInterceptor toGRPC ctx req info handler s)) = None)
          = (snd (fst (handler ctx req s)) = None)"
    using toGRPC by (simp add: ConvertUnaryServer_eq split: option.splits)
  have c: "ConvertErrorStreamServerInterceptor toGRPC srv ss sinfo shandler s =
       (case shandler srv ss s of
          (None, s1) \<Rightarrow> (None, s1)
        | (Some e, s1) \<Rightarrow> (toGRPC e, s1))"
    by (simp add: ConvertStreamServer_eq split: prod.splits option.splits)
  have d: "(fst (ConvertErrorStreamServerInterceptor toGRPC srv ss sinfo shandler s) = None)
          = (fst (shandler srv ss s) = None)"
    using toGRPC by (simp add: ConvertStreamServer_eq split: option.splits)
  have e: "ConvertErrorUnaryClientInterceptor toDf cctx method creq reply cc invoker opts s =
       (case invoker cctx method creq reply cc opts s of
          (None, s1) \<Rightarrow> (None, s1)
        | (Some e, s1) \<Rightarrow> (toDf e, s1))"
    by (simp add: ConvertUnaryClient_eq split: prod.splits option.splits)
  have f: "(fst (ConvertErrorUnaryClientInterceptor toDf cctx method creq reply cc invoker opts s) = None)
          = (fst (invoker cctx method creq reply cc opts s) = None)"
    using toDf by (simp add: ConvertUnaryClient_eq split: option.splits)
  have g: "ConvertErrorStreamClientInterceptor toDf cctx desc cc method streamer opts s =
       (case streamer cctx desc cc method opts s of
          ((cs, None), s1) \<Rightarrow> ((cs, None), s1)
        | ((cs, Some e), s1) \<Rightarrow> ((None, toDf e), s1))"
    by (simp add: ConvertStreamClient_eq split: prod.splits option.splits)
  have h: "(snd (fst (ConvertErrorStreamClientInterceptor toDf cctx desc cc method streamer opts s)) = None)
          = (snd (fst (streamer cctx desc cc method opts s)) = None)"
    using toDf by (simp add: ConvertStreamClient_eq split: option.splits)
  from a b c d e f g h show ?thesis by blast
qed

theorem ConvertError_keeps_outcome_witness:
  "ConvertErrorUnaryServerInterceptor
     (\<lambda>e. case e of DfError c m \<Rightarrow> Some (StatusError Internal m) | _ \<Rightarrow> Some e)
     () ''req'' () (\<lambda>ctx req s. ((''reply'', Some (DfError 5 ''busy'')), Suc s)) (0::nat)
     = ((''reply'', Some (StatusError Internal ''busy'')), 1) \<and>
   ConvertErrorStreamClientInterceptor
     (\<lambda>e. case e of StatusError c m \<Rightarrow> Some (DfError 0 m) | _ \<Rightarrow> Some e)
     () () () ''method''
     (\<lambda>ctx desc cc m os s. ((Some (7::nat), Some (StatusError NotFound ''gone'')), Suc s))
     ([]::unit list) (0::nat)
     = ((None, Some (DfError 0 ''gone'')), 1)"
proof -
  have g: "\<And>e. (case e of DfError c m \<Rightarrow> Some (StatusError Internal m) | _ \<Rightarrow> Some e) \<noteq> None"
    by (simp split: error.splits)
  have d: "\<And>e. (case e of StatusError c m \<Rightarrow> Some (DfError 0 m) | _ \<Rightarrow> Some e) \<noteq> None"
    by (simp split: error.splits)
  from ConvertError_keeps_outcome
    [of "\<lambda>e. case e of DfError c m \<Rightarrow> Some (StatusError Internal m) | _ \<Rightarrow> Some e"
        "\<lambda>e. case e of StatusError c m \<Rightarrow> Some (DfError 0 m) | _ \<Rightarrow> Some e"
        "()" "''req''" "()" "\<lambda>ctx req s. ((''reply'', Some (DfError 5 ''busy'')), Suc s)" "0::nat"
        "()" "()" "()" "\<lambda>srv ss s. (None, s)"
        "()" "''method''" "()" "()" "()" "\<lambda>ctx m q p k os s. (None, s)" "[]::unit list"
        "()" "\<lambda>ctx desc cc m os s. ((Some (7::nat), Some (StatusError NotFound ''gone'')), Suc s)",
     OF g d]
  show ?thesis by simp
qed

text \<open>
  C9. When the streamer returns an error \<open>e\<close>, with whatever stream handle \<open>cs\<close> beside
  it, \<open>ConvertErrorStreamClientInterceptor\<close> returns a nil handle with the conversion of
  \<open>e\<close>, while \<open>RefresherStreamClientInterceptor\<close> returns the handle \<open>cs\<close> and the error \<open>e\<close>
  as the streamer gave them.
\<close>

theorem ConvertErrorStreamClient_drops_handle_on_error:
  assumes "fst (streamer ctx desc cc method opts s) = (cs, Some e)"
  shows "fst (ConvertErrorStreamClientInterceptor toDf ctx desc cc method streamer opts s)
           = (None, toDf e) \<and>
         fst (RefresherStreamClientInterceptor r ctx desc cc method streamer opts s)
           = (cs, Some e)"
  using assms by (simp add: ConvertStreamClient_eq RefresherStream_eq)

theorem ConvertErrorStreamClient_drops_handle_on_error_witness:
  "fst (ConvertErrorStreamClientInterceptor
          (\<lambda>e. case e of StatusError c m \<Rightarrow> Some (DfError 0 m) | _ \<Rightarrow> Some e)
          () () () ''method''
          (\<lambda>ctx desc cc m os s. ((Some (7::nat), Some (StatusError Unavailable ''down'')), Suc s))
          ([]::unit list) (0::nat))
     = (None, Some (DfError 0 ''down'')) \<and>
   fst (RefresherStreamClientInterceptor (\<lambda>s. (Some (PlainError ''refresh failed''), s))
          () () () ''method''
          (\<lambda>ctx desc cc m os s. ((Some (7::nat), Some (StatusError Unavailable ''down'')), Suc s))
          ([]::unit list) (0::nat))
     = (Some 7, Some (StatusError Unavailable ''down''))"
  using ConvertErrorStreamClient_drops_handle_on_error
    [of "\<lambda>ctx desc cc m os s.
             ((Some (7::nat), Some (StatusError Unavailable ''down'')), Suc s)"
        "()" "()" "()" "''method''" "[]::unit list" "0::nat"
        "Some 7" "StatusError Unavailable ''down''"
        "\<lambda>e. case e of StatusError c m \<Rightarrow> Some (DfError 0 m) | _ \<Rightarrow> Some e"
        "\<lambda>s. (Some (PlainError ''refresh failed''), s)"]
  by simp

text \<open>
  C10. \<open>ConvertErrorUnaryServerInterceptor\<close> returns the handler's reply value as it is,
  whether the handler failed or not; the error beside it is nil when the handler's was
  nil and the conversion of the handler's error otherwise; the handler's effects stay.
\<close>

theorem ConvertErrorUnaryServer_keeps_reply:
  "fst (fst (ConvertErrorUnaryServerInterceptor toGRPC ctx req info handler s))
     = fst (fst (handler ctx req s)) \<and>
   snd (fst (ConvertErrorUnaryServerInterceptor toGRPC ctx req info handler s))
     = (case snd (fst (handler ctx req s)) of None \<Rightarrow> None | Some e \<Rightarrow> toGRPC e) \<and>
   snd (ConvertErrorUnaryServerInterceptor toGRPC ctx req info handler s)
     = snd (handler ctx req s)"
  by (simp add: ConvertUnaryServer_eq)

section \<open>Properties of the tracing interceptors\<close>

lemma ensure_first: "ensureOTELInterceptorInitialized processStart = processReady"
  by (simp add: ensureOTELInterceptorInitialized_def interceptorsInitialized_Do_def
      otelgrpc_UnaryClientInterceptor_def otelgrpc_StreamClientInterceptor_def
      processStart_def processReady_def)

lemma ensure_later:
  "interceptorsInitialized p \<Longrightarrow> ensureOTELInterceptorInitialized p = p"
  by (simp add: ensureOTELInterceptorInitialized_def interceptorsInitialized_Do_def)

lemma callGetter_first: "callGetter g processStart = (firstInstance g, processReady)"
  by (cases g)
     (simp_all add: OTELUnaryClientInterceptor_def OTELStreamClientInterceptor_def
        ensure_first, simp_all add: processReady_def)

lemma callGetter_later: "callGetter g processReady = (firstInstance g, processReady)"
proof -
  have "ensureOTELInterceptorInitialized processReady = processReady"
    by (rule ensure_later) (simp add: processReady_def)
  then show ?thesis
    by (cases g)
       (simp_all add: OTELUnaryClientInterceptor_def OTELStreamClientInterceptor_def,
        simp_all add: processReady_def)
qed

lemma callGetters_later: "callGetters gs processReady = (map firstInstance gs, processReady)"
  by (induction gs) (simp_all add: callGetter_later)

text \<open>
  C7. From process start, any sequence of calls of \<open>OTELUnaryClientInterceptor\<close> and
  \<open>OTELStreamClientInterceptor\<close>, in any order: every call of the unary getter returns
  the same instance, every call of the stream getter returns the same instance, and
  after a sequence of at least one call each of the two interceptors has been
  constructed exactly once (after no call, none has been constructed).
\<close>

theorem OTEL_getters_same_instance_constructed_once:
  "fst (callGetters gs processStart) = map firstInstance gs \<and>
   unaryConstructions (snd (callGetters gs processStart)) = (if gs = [] then 0 else 1) \<and>
   streamConstructions (snd (callGetters gs processStart)) = (if gs = [] then 0 else 1)"
proof (cases gs)
  case Nil
  then show ?thesis by (simp add: processStart_def)
next
  case (Cons g gs')
  then show ?thesis
    by (simp add: callGetter_first callGetters_later) (simp add: processReady_def)
qed

end
